theory Spec2Isabelle
  imports Complex_Main
begin

section \<open>The pulse scoring engine (PulseScoringService, version 2.0)\<close>

text \<open>
  A shallow embedding of the seven category scorers, the confidence evaluator, the
  insufficient-data gate and the weighted aggregator of \<^verbatim>\<open>PulseScoringService\<close>.

  Conventions of the embedding:
  \<^item> a JavaScript number is an exact rational (\<^typ>\<open>rat\<close>) and the arithmetic on it is
    exact: the rounding of IEEE double arithmetic is left out, and with it \<^verbatim>\<open>NaN\<close> and
    the infinities as values of a number field. \<^verbatim>\<open>Math.round\<close> is \<^const>\<open>round\<close>
    (half up, \<open>\<lfloor>x + 1/2\<rfloor>\<close>). Scores are integers, as every scorer produces them;
  \<^item> a field that may be \<^verbatim>\<open>undefined\<close> or \<^verbatim>\<open>null\<close> is an \<open>option\<close>;
  \<^item> a JavaScript string is the list of its Unicode code points; \<^verbatim>\<open>length\<close>
    counts UTF-16 code units. Case mapping is carried out on the ASCII letters, every
    other code point is left as it is;
  \<^item> text that the engine only emits (labels, messages) is a \<^typ>\<open>string\<close>.
\<close>

subsection \<open>Strings and the regular expressions of the red-flag analyser\<close>

type_synonym jsstring = "nat list"

definition ascii :: "string \<Rightarrow> jsstring" where
  "ascii s = map of_char s"

definition lowerChar :: "nat \<Rightarrow> nat" where
  "lowerChar c = (if 65 \<le> c \<and> c \<le> 90 then c + 32 else c)"

definition upperChar :: "nat \<Rightarrow> nat" where
  "upperChar c = (if 97 \<le> c \<and> c \<le> 122 then c - 32 else c)"

definition toLowerCase :: "jsstring \<Rightarrow> jsstring" where
  "toLowerCase s = map lowerChar s"

definition toUpperCase :: "jsstring \<Rightarrow> jsstring" where
  "toUpperCase s = map upperChar s"

definition jsLength :: "jsstring \<Rightarrow> nat" where
  "jsLength s = sum_list (map (\<lambda>c. if 65536 \<le> c then 2 else 1) s)"

text \<open>\<^verbatim>\<open>x || ''\<close> on a string that may be missing.\<close>

definition orEmpty :: "jsstring option \<Rightarrow> jsstring" where
  "orEmpty s = (case s of None \<Rightarrow> [] | Some t \<Rightarrow> t)"

text \<open>Truthiness of a string that may be missing: present and not empty.\<close>

definition truthy :: "jsstring option \<Rightarrow> bool" where
  "truthy s = (case s of None \<Rightarrow> False | Some t \<Rightarrow> t \<noteq> [])"

fun startsWith :: "jsstring \<Rightarrow> jsstring \<Rightarrow> bool" where
  "startsWith s [] = True"
| "startsWith [] (p # ps) = False"
| "startsWith (c # cs) (p # ps) = (c = p \<and> startsWith cs ps)"

text \<open>\<^verbatim>\<open>s.includes(p)\<close>, which is also the test of a regular expression that is a literal.\<close>

fun jsIncludes :: "jsstring \<Rightarrow> jsstring \<Rightarrow> bool" where
  "jsIncludes [] p = (p = [])"
| "jsIncludes (c # cs) p = (startsWith (c # cs) p \<or> jsIncludes cs p)"

text \<open>The test of an alternation of literals, \<^verbatim>\<open>/a|b|c/.test(s)\<close>.\<close>

definition testAny :: "string list \<Rightarrow> jsstring \<Rightarrow> bool" where
  "testAny ps s = list_ex (\<lambda>p. jsIncludes s (ascii p)) ps"

definition isDigit :: "nat \<Rightarrow> bool" where
  "isDigit c = (48 \<le> c \<and> c \<le> 57)"

text \<open>The dot of a regular expression matches everything but a line terminator.\<close>

definition lineTerminator :: "nat \<Rightarrow> bool" where
  "lineTerminator c = (c = 10 \<or> c = 13 \<or> c = 8232 \<or> c = 8233)"

fun startsWithDigits :: "nat \<Rightarrow> jsstring \<Rightarrow> bool" where
  "startsWithDigits 0 s = True"
| "startsWithDigits (Suc n) [] = False"
| "startsWithDigits (Suc n) (c # cs) = (isDigit c \<and> startsWithDigits n cs)"

text \<open>\<^verbatim>\<open>.*\d{10}\<close> matched from the start of \<open>s\<close>.\<close>

fun dotStarDigits :: "jsstring \<Rightarrow> bool" where
  "dotStarDigits [] = False"
| "dotStarDigits (c # cs) =
     (startsWithDigits 10 (c # cs) \<or> (\<not> lineTerminator c \<and> dotStarDigits cs))"

text \<open>\<^verbatim>\<open>/w.*\d{10}/.test(s)\<close> for a literal \<open>w\<close>.\<close>

fun wordThenDigits :: "jsstring \<Rightarrow> jsstring \<Rightarrow> bool" where
  "wordThenDigits w [] = False"
| "wordThenDigits w (c # cs) =
     ((startsWith (c # cs) w \<and> dotStarDigits (drop (length w) (c # cs)))
      \<or> wordThenDigits w cs)"

text \<open>The character class of the emoji expression (matched per code point, flag \<^verbatim>\<open>u\<close>).\<close>

definition isEmoji :: "nat \<Rightarrow> bool" where
  "isEmoji c =
     ((0x1F600 \<le> c \<and> c \<le> 0x1F64F) \<or> (0x1F300 \<le> c \<and> c \<le> 0x1F5FF)
    \<or> (0x1F680 \<le> c \<and> c \<le> 0x1F6FF) \<or> (0x1F700 \<le> c \<and> c \<le> 0x1F77F)
    \<or> (0x1F780 \<le> c \<and> c \<le> 0x1F7FF) \<or> (0x1F800 \<le> c \<and> c \<le> 0x1F8FF)
    \<or> (0x1F900 \<le> c \<and> c \<le> 0x1F9FF) \<or> (0x1FA00 \<le> c \<and> c \<le> 0x1FA6F)
    \<or> (0x1FA70 \<le> c \<and> c \<le> 0x1FAFF) \<or> (0x2600 \<le> c \<and> c \<le> 0x26FF)
    \<or> (0x2700 \<le> c \<and> c \<le> 0x27BF))"

subsection \<open>Input data\<close>

text \<open>
  \<^verbatim>\<open>lastSeen\<close> is scraped text; the engine only ever reads it through
  \<^verbatim>\<open>parseInt\<close>, so the field holds what \<^verbatim>\<open>parseInt\<close> makes of it.
\<close>

datatype parsedInt = NaN | Days int

record MarketplaceData =
  verificationStatus :: "jsstring option"
  accountAge :: "rat option"
  lastSeen :: "parsedInt option"
  responseRate :: "rat option"
  totalReviews :: "rat option"
  avgRating :: "rat option"

record ProfileData =
  profilePicture :: "jsstring option"
  location :: "jsstring option"
  bio :: "jsstring option"

text \<open>The entries of \<^verbatim>\<open>dataAvailability\<close> that the engine reads.\<close>

record DataAvailability =
  daProfilePicture :: "jsstring option"
  daLocation :: "jsstring option"
  daRecentListings :: "jsstring option"

record SellerData =
  marketplaceData :: "MarketplaceData option"
  profileData :: "ProfileData option"
  dataAvailability :: "DataAvailability option"

record Listing =
  title :: "jsstring option"
  price :: "jsstring option"
  hasPrice :: "bool option"
  imageCount :: "rat option"
  description :: "jsstring option"
  descriptionLength :: "rat option"

record VeribleFeedback =
  endorsements :: "jsstring list option"
  flags :: "jsstring list option"

text \<open>\<^verbatim>\<open>sellerData.marketplaceData?.f\<close> and its siblings.\<close>

definition market :: "(MarketplaceData \<Rightarrow> 'a option) \<Rightarrow> SellerData \<Rightarrow> 'a option" where
  "market f sd = (case marketplaceData sd of None \<Rightarrow> None | Some m \<Rightarrow> f m)"

definition profile :: "(ProfileData \<Rightarrow> 'a option) \<Rightarrow> SellerData \<Rightarrow> 'a option" where
  "profile f sd = (case profileData sd of None \<Rightarrow> None | Some p \<Rightarrow> f p)"

definition availability :: "(DataAvailability \<Rightarrow> 'a option) \<Rightarrow> SellerData \<Rightarrow> 'a option" where
  "availability f sd = (case dataAvailability sd of None \<Rightarrow> None | Some d \<Rightarrow> f d)"

text \<open>\<^verbatim>\<open>x || 0\<close> on a number that may be missing.\<close>

definition orZero :: "rat option \<Rightarrow> rat" where
  "orZero x = (case x of None \<Rightarrow> 0 | Some v \<Rightarrow> v)"

definition platformUnavailable :: "jsstring option \<Rightarrow> bool" where
  "platformUnavailable s = (s = Some (ascii ''platform_unavailable''))"

subsection \<open>Category scores\<close>

datatype CategoryKey =
    VerificationIdentity | AccountMaturity | ListingCompleteness | ActivityRecency
  | Engagement | CommunityFeedback | BehavioralRedFlags

text \<open>\<^verbatim>\<open>true\<close>, \<^verbatim>\<open>'platform_unavailable'\<close> or \<^verbatim>\<open>false\<close> in the identity breakdown.\<close>

datatype presence = Present | PlatformUnavailable | Absent

datatype checks = Checks (hasTitle: bool) (checkPrice: bool) (hasEnoughPhotos: bool)
  (hasGoodDescription: bool)

datatype Evaluation = Evaluation "jsstring option" int checks

record RedFlag =
  listing :: nat
  flag :: string
  count :: "nat option"
  penalty :: int

text \<open>
  The diagnostic record of each scorer, one constructor per shape. The two formatted
  strings (\<^verbatim>\<open>years\<close> and the response rate with its percent sign) are left as the
  numbers they are formatted from.
\<close>

datatype Breakdown =
    IdentityBreakdown string presence presence
  | Message string
  | AgeMissing rat string
  | AgeBreakdown rat
  | CompletenessBreakdown nat int "Evaluation list"
  | LastSeenBreakdown parsedInt string
  | ListingsBreakdown string nat
  | ResponseBreakdown rat
  | FeedbackBreakdown rat rat "(nat \<times> nat \<times> int) option"
  | RedFlagsBreakdown int nat "RedFlag list" int

record CategoryScore =
  score :: "int option"
  available :: bool
  breakdown :: Breakdown

subsubsection \<open>Category 1: Verification and Identity\<close>

text \<open>The base verification score and the verification type of the breakdown.\<close>

definition baseVerification :: "jsstring \<Rightarrow> int \<times> string" where
  "baseVerification verification =
    (if jsIncludes verification (ascii ''id'') \<or> verification = ascii ''id-verified''
        \<or> verification = ascii ''identity verified''
     then (100, ''ID Verified'')
     else if jsIncludes verification (ascii ''phone'')
        \<or> verification = ascii ''phone-verified''
     then (70, ''Phone Verified'')
     else if jsIncludes verification (ascii ''email'')
        \<or> verification = ascii ''email-verified''
     then (50, ''Email Verified'')
     else (0, ''Not Verified''))"

text \<open>
  One bonus block (photo, location): ten points capped at 100 when the field is there,
  otherwise the breakdown records whether the platform hides the field.
\<close>

definition bonus :: "bool \<Rightarrow> jsstring option \<Rightarrow> int \<Rightarrow> int \<times> presence" where
  "bonus has fieldAvailability sc =
    (if has then (min 100 (sc + 10), Present)
     else if platformUnavailable fieldAvailability then (sc, PlatformUnavailable)
     else (sc, Absent))"

definition calculateVerificationIdentityScore :: "SellerData \<Rightarrow> CategoryScore" where
  "calculateVerificationIdentityScore sellerData =
    (let lowered = map_option toLowerCase (market verificationStatus sellerData);
         verification = (if truthy lowered then orEmpty lowered else ascii ''unverified'');
         hasPhoto = truthy (profile profilePicture sellerData);
         hasLocation = (truthy (profile location sellerData)
                        \<and> profile location sellerData \<noteq> Some (ascii ''Not specified''));
         (score0, verificationType) = baseVerification verification;
         (score1, photo) = bonus hasPhoto (availability daProfilePicture sellerData) score0;
         (score2, loc) = bonus hasLocation (availability daLocation sellerData) score1
     in \<lparr> score = Some (min 100 score2), available = True,
          breakdown = IdentityBreakdown verificationType photo loc \<rparr>)"

subsubsection \<open>Category 2: Account Maturity\<close>

definition calculateAccountMaturityScore :: "SellerData \<Rightarrow> CategoryScore" where
  "calculateAccountMaturityScore sellerData =
    (let accountAgeMonths = orZero (market accountAge sellerData)
     in if accountAgeMonths = 0
        then \<lparr> score = None, available = False,
               breakdown = AgeMissing 0 ''Account age not available'' \<rparr>
        else \<lparr> score = Some (if 12 \<le> accountAgeMonths then 100
                             else if 6 \<le> accountAgeMonths then 70
                             else if 3 \<le> accountAgeMonths then 40
                             else 10),
               available = True,
               breakdown = AgeBreakdown accountAgeMonths \<rparr>)"

subsubsection \<open>Category 3: Listing Completeness\<close>

text \<open>
  \<^verbatim>\<open>x >= n\<close> for a positive bound \<open>n\<close> and a number that may be missing: a missing
  number compares as \<^verbatim>\<open>NaN\<close> or as 0, and is below the bound either way.
\<close>

definition numAtLeast :: "rat option \<Rightarrow> rat \<Rightarrow> bool" where
  "numAtLeast x n = (case x of None \<Rightarrow> False | Some v \<Rightarrow> n \<le> v)"

text \<open>The body of the loop over the listings: the points of one listing and its checks.\<close>

definition evaluateListing :: "Listing \<Rightarrow> int \<times> checks" where
  "evaluateListing l =
    (let titleOk = (truthy (title l) \<and> 0 < jsLength (orEmpty (title l)));
         priceOk = (truthy (price l) \<and> 0 < jsLength (orEmpty (price l))
                    \<and> hasPrice l \<noteq> Some False);
         photosOk = numAtLeast (imageCount l) 3;
         descriptionOk = (truthy (description l) \<and> numAtLeast (descriptionLength l) 100)
     in ((if titleOk then 5 else 0) + (if priceOk then 10 else 0)
         + (if photosOk then 15 else if numAtLeast (imageCount l) 1 then 5 else 0)
         + (if descriptionOk then 20 else 0),
         Checks titleOk priceOk photosOk descriptionOk))"

fun evaluateListings :: "Listing list \<Rightarrow> int \<times> Evaluation list \<Rightarrow> int \<times> Evaluation list" where
  "evaluateListings [] acc = acc"
| "evaluateListings (l # ls) (totalScore, evaluations) =
     (let (listingScore, cs) = evaluateListing l
      in evaluateListings ls
           (totalScore + listingScore, evaluations @ [Evaluation (title l) listingScore cs]))"

definition calculateListingCompletenessScore :: "Listing list \<Rightarrow> SellerData \<Rightarrow> CategoryScore" where
  "calculateListingCompletenessScore recentListings sellerData =
    (if length recentListings = 0
     then \<lparr> score = None, available = False,
            breakdown = Message
              (if platformUnavailable (availability daRecentListings sellerData)
               then ''Listings not exposed by platform'' else ''No listings available'') \<rparr>
     else
       (let listingsToEvaluate = take 5 recentListings;
            (totalScore, evaluations) = evaluateListings listingsToEvaluate (0, []);
            avgScore = rat_of_int totalScore / rat_of_nat (length listingsToEvaluate);
            normalizedScore = (avgScore / 50) * 100
        in \<lparr> score = Some (round (min 100 normalizedScore)), available = True,
             breakdown = CompletenessBreakdown (length listingsToEvaluate) (round avgScore)
                           evaluations \<rparr>))"

subsubsection \<open>Category 4: Activity and Recency\<close>

text \<open>\<^verbatim>\<open>days <= n\<close>, false when \<^verbatim>\<open>days\<close> is \<^verbatim>\<open>NaN\<close>.\<close>

definition daysAtMost :: "parsedInt \<Rightarrow> int \<Rightarrow> bool" where
  "daysAtMost days n = (case days of NaN \<Rightarrow> False | Days d \<Rightarrow> d \<le> n)"

definition calculateActivityRecencyScore :: "SellerData \<Rightarrow> Listing list \<Rightarrow> CategoryScore" where
  "calculateActivityRecencyScore sellerData recentListings =
    (case market lastSeen sellerData of
       Some days \<Rightarrow>
         (if daysAtMost days 7
          then \<lparr> score = Some 100, available = True,
                 breakdown = LastSeenBreakdown days ''Very Active'' \<rparr>
          else if daysAtMost days 30
          then \<lparr> score = Some 70, available = True,
                 breakdown = LastSeenBreakdown days ''Active'' \<rparr>
          else if daysAtMost days 60
          then \<lparr> score = Some 40, available = True,
                 breakdown = LastSeenBreakdown days ''Moderately Active'' \<rparr>
          else \<lparr> score = Some 10, available = True,
                 breakdown = LastSeenBreakdown days ''Inactive'' \<rparr>)
     | None \<Rightarrow>
         (if 0 < length recentListings
          then \<lparr> score = Some 50, available = True,
                 breakdown = ListingsBreakdown ''Has active listings'' (length recentListings) \<rparr>
          else \<lparr> score = None, available = False,
                 breakdown = Message
                   (if platformUnavailable (availability daRecentListings sellerData)
                    then ''Platform does not expose activity signals''
                    else ''Activity data not available'') \<rparr>))"

subsubsection \<open>Category 5: Engagement\<close>

definition calculateEngagementScore :: "SellerData \<Rightarrow> CategoryScore" where
  "calculateEngagementScore sellerData =
    (case market responseRate sellerData of
       None \<Rightarrow> \<lparr> score = None, available = False,
                 breakdown = Message ''Response rate not available'' \<rparr>
     | Some rate \<Rightarrow>
         (if rate = 0
          then \<lparr> score = None, available = False,
                 breakdown = Message ''Response rate not available'' \<rparr>
          else \<lparr> score = Some (if 90 \<le> rate then 100
                               else if 80 \<le> rate then 80
                               else if 60 \<le> rate then 60
                               else 30),
                 available = True, breakdown = ResponseBreakdown rate \<rparr>))"

subsubsection \<open>Category 6: Community Feedback\<close>

text \<open>\<^verbatim>\<open>xs?.length || 0\<close> on an array that may be missing.\<close>

definition lengthOrZero :: "'a list option \<Rightarrow> nat" where
  "lengthOrZero xs = (case xs of None \<Rightarrow> 0 | Some ys \<Rightarrow> length ys)"

definition calculateCommunityFeedbackScore ::
  "SellerData \<Rightarrow> VeribleFeedback option \<Rightarrow> CategoryScore" where
  "calculateCommunityFeedbackScore sellerData veribleFeedback =
    (let reviews = orZero (market totalReviews sellerData);
         rating = orZero (market avgRating sellerData);
         score0 = (if 10 \<le> reviews \<or> 45 / 10 \<le> rating then 100
                   else if 5 \<le> reviews then 70
                   else if 1 \<le> reviews then 40
                   else (0::int));
         (score1, verible) =
           (case veribleFeedback of
              None \<Rightarrow> (score0, None)
            | Some fb \<Rightarrow>
                (let e = lengthOrZero (endorsements fb);
                     f = lengthOrZero (flags fb);
                     netFeedback = int e - int f
                 in (if 0 < netFeedback then min 100 (score0 + netFeedback * 5)
                     else if netFeedback < 0 then max 0 (score0 + netFeedback * 10)
                     else score0,
                     Some (e, f, netFeedback))))
     in if reviews = 0 \<and> veribleFeedback = None
        then \<lparr> score = None, available = False, breakdown = Message ''No feedback available'' \<rparr>
        else \<lparr> score = Some (min 100 (max 0 score1)), available = True,
               breakdown = FeedbackBreakdown reviews rating verible \<rparr>)"

subsubsection \<open>Category 7: Behavioral Red Flags\<close>

text \<open>
  One \<^verbatim>\<open>if\<close> of the loop body: when the pattern matches, subtract the penalty and
  push the entry, with \<^verbatim>\<open>listing: idx + 1\<close>.
\<close>

definition raiseFlag ::
  "bool \<Rightarrow> nat \<Rightarrow> string \<Rightarrow> nat option \<Rightarrow> int \<Rightarrow> int \<times> RedFlag list \<Rightarrow> int \<times> RedFlag list" where
  "raiseFlag matched idx name cnt pen st =
    (if matched
     then (fst st - pen,
           snd st @ [\<lparr> listing = idx + 1, flag = name, count = cnt, penalty = pen \<rparr>])
     else st)"

definition fullText :: "Listing \<Rightarrow> jsstring" where
  "fullText l = toLowerCase (orEmpty (title l)) @ ascii '' '' @ toLowerCase (orEmpty (description l))"

definition urgentLanguage :: "jsstring \<Rightarrow> bool" where
  "urgentLanguage t = testAny [''urgent'', ''asap'', ''immediate'', ''hurry''] t"

definition financialPressure :: "jsstring \<Rightarrow> bool" where
  "financialPressure t =
     testAny [''need money'', ''bills'', ''must sell'', ''quick sale'', ''fast sale''] t"

definition cashOnly :: "jsstring \<Rightarrow> bool" where
  "cashOnly t = testAny [''cash only'', ''payment first'', ''no questions''] t"

definition firstComeFirstServe :: "jsstring \<Rightarrow> bool" where
  "firstComeFirstServe t = testAny [''first come'', ''first serve''] t"

definition offPlatformContact :: "jsstring \<Rightarrow> bool" where
  "offPlatformContact t =
     (testAny [''whatsapp'', ''telegram'', ''contact me at''] t
      \<or> wordThenDigits (ascii ''call'') t \<or> wordThenDigits (ascii ''text'') t)"

definition allCapsTitle :: "Listing \<Rightarrow> bool" where
  "allCapsTitle l =
     (truthy (title l) \<and> orEmpty (title l) = toUpperCase (orEmpty (title l))
      \<and> 5 < jsLength (orEmpty (title l)))"

definition emojiCount :: "jsstring \<Rightarrow> nat" where
  "emojiCount t = length (filter isEmoji t)"

definition checkListing :: "Listing \<Rightarrow> nat \<Rightarrow> int \<times> RedFlag list \<Rightarrow> int \<times> RedFlag list" where
  "checkListing l idx st0 =
    (let t = fullText l;
         st1 = raiseFlag (urgentLanguage t) idx ''Urgent language'' None 15 st0;
         st2 = raiseFlag (financialPressure t) idx ''Financial pressure language'' None 15 st1;
         st3 = raiseFlag (cashOnly t) idx ''Cash only / suspicious payment'' None 20 st2;
         st4 = raiseFlag (firstComeFirstServe t) idx ''First come first serve'' None 10 st3;
         st5 = raiseFlag (offPlatformContact t) idx ''Off-platform contact attempt'' None 20 st4;
         st6 = raiseFlag (allCapsTitle l) idx ''ALL-CAPS title'' None 5 st5
     in raiseFlag (3 < emojiCount t) idx ''Excessive emojis'' (Some (emojiCount t)) 5 st6)"

text \<open>\<^verbatim>\<open>recentListings.forEach((listing, idx) => ...)\<close>, from index \<open>idx\<close> on.\<close>

fun scanListings :: "Listing list \<Rightarrow> nat \<Rightarrow> int \<times> RedFlag list \<Rightarrow> int \<times> RedFlag list" where
  "scanListings [] idx st = st"
| "scanListings (l # ls) idx st = scanListings ls (idx + 1) (checkListing l idx st)"

definition calculateBehavioralRedFlagsScore :: "Listing list \<Rightarrow> SellerData \<Rightarrow> CategoryScore" where
  "calculateBehavioralRedFlagsScore recentListings sellerData =
    (if length recentListings = 0
     then \<lparr> score = None, available = False,
            breakdown = Message
              (if platformUnavailable (availability daRecentListings sellerData)
               then ''Platform does not expose listings for behavioral analysis''
               else ''No listings to analyze'') \<rparr>
     else
       (let (sc, redFlags) = scanListings recentListings 0 (100, [])
        in \<lparr> score = Some (max 0 sc), available = True,
             breakdown = RedFlagsBreakdown 100 (length redFlags) redFlags (max 0 sc) \<rparr>))"

subsection \<open>The categories object\<close>

definition categoryKeys :: "CategoryKey list" where
  "categoryKeys = [VerificationIdentity, AccountMaturity, ListingCompleteness,
     ActivityRecency, Engagement, CommunityFeedback, BehavioralRedFlags]"

text \<open>The weight table of the constructor, \<^verbatim>\<open>this.categoryWeights[k]\<close>.\<close>

definition categoryWeight :: "CategoryKey \<Rightarrow> rat" where
  "categoryWeight k =
    (case k of
       VerificationIdentity \<Rightarrow> 25 / 100
     | AccountMaturity \<Rightarrow> 15 / 100
     | ListingCompleteness \<Rightarrow> 15 / 100
     | ActivityRecency \<Rightarrow> 10 / 100
     | Engagement \<Rightarrow> 10 / 100
     | CommunityFeedback \<Rightarrow> 10 / 100
     | BehavioralRedFlags \<Rightarrow> 15 / 100)"

text \<open>The object built at the start of \<^verbatim>\<open>calculatePulseScore\<close>, read by key.\<close>

definition scoreCategories ::
  "SellerData \<Rightarrow> Listing list \<Rightarrow> VeribleFeedback option \<Rightarrow> CategoryKey \<Rightarrow> CategoryScore" where
  "scoreCategories sellerData recentListings veribleFeedback k =
    (case k of
       VerificationIdentity \<Rightarrow> calculateVerificationIdentityScore sellerData
     | AccountMaturity \<Rightarrow> calculateAccountMaturityScore sellerData
     | ListingCompleteness \<Rightarrow> calculateListingCompletenessScore recentListings sellerData
     | ActivityRecency \<Rightarrow> calculateActivityRecencyScore sellerData recentListings
     | Engagement \<Rightarrow> calculateEngagementScore sellerData
     | CommunityFeedback \<Rightarrow> calculateCommunityFeedbackScore sellerData veribleFeedback
     | BehavioralRedFlags \<Rightarrow> calculateBehavioralRedFlagsScore recentListings sellerData)"

subsection \<open>Confidence\<close>

record ConfidenceMetrics =
  confidence :: rat
  coverage :: rat
  recency :: rat
  consistency :: rat
  availableCategories :: nat
  totalCategories :: nat
  missingCategories :: "CategoryKey list"

text \<open>\<^verbatim>\<open>Math.round(x * 100) / 100\<close>.\<close>

definition round2 :: "rat \<Rightarrow> rat" where
  "round2 x = rat_of_int (round (x * 100)) / 100"

text \<open>\<^verbatim>\<open>Object.values(categories).filter(c => c.available).length\<close>.\<close>

definition availableCount :: "(CategoryKey \<Rightarrow> CategoryScore) \<Rightarrow> nat" where
  "availableCount categories = length (filter (\<lambda>k. available (categories k)) categoryKeys)"

text \<open>Step 1 of \<^verbatim>\<open>calculateConfidence\<close>: the local \<^verbatim>\<open>coverage\<close>.\<close>

definition rawCoverage :: "(CategoryKey \<Rightarrow> CategoryScore) \<Rightarrow> rat" where
  "rawCoverage categories =
     rat_of_nat (availableCount categories) / rat_of_nat (length categoryKeys)"

text \<open>Step 2: the local \<^verbatim>\<open>recency\<close>.\<close>

definition rawRecency :: "SellerData \<Rightarrow> Listing list \<Rightarrow> rat" where
  "rawRecency sellerData recentListings =
    (case market lastSeen sellerData of
       Some days \<Rightarrow>
         (if daysAtMost days 30 then 1 else if daysAtMost days 60 then 6 / 10 else 3 / 10)
     | None \<Rightarrow> (if 0 < length recentListings then 6 / 10 else 3 / 10))"

text \<open>\<^verbatim>\<open>score > 0\<close> and its like on a score that may be \<^verbatim>\<open>null\<close>, which counts as 0.\<close>

definition toNumber :: "int option \<Rightarrow> int" where
  "toNumber x = (case x of None \<Rightarrow> 0 | Some v \<Rightarrow> v)"

definition hasBusinessIndicators :: "SellerData \<Rightarrow> bool" where
  "hasBusinessIndicators sellerData =
     (jsIncludes (toLowerCase (orEmpty (profile bio sellerData))) (ascii ''we supply'')
      \<or> jsIncludes (toLowerCase (orEmpty (profile bio sellerData))) (ascii ''we sell''))"

text \<open>Step 3: the local \<^verbatim>\<open>consistency\<close>.\<close>

definition rawConsistency :: "SellerData \<Rightarrow> (CategoryKey \<Rightarrow> CategoryScore) \<Rightarrow> rat" where
  "rawConsistency sellerData categories =
    (let hasBasicIdentity = (0 < toNumber (score (categories VerificationIdentity)))
     in if hasBusinessIndicators sellerData \<and> \<not> hasBasicIdentity then 7 / 10 else 1)"

definition calculateConfidence ::
  "SellerData \<Rightarrow> Listing list \<Rightarrow> (CategoryKey \<Rightarrow> CategoryScore) \<Rightarrow> ConfidenceMetrics" where
  "calculateConfidence sellerData recentListings categories =
    (let cov = rawCoverage categories;
         rec = rawRecency sellerData recentListings;
         con = rawConsistency sellerData categories;
         conf = (5 / 10) * cov + (3 / 10) * rec + (2 / 10) * con
     in \<lparr> confidence = round2 conf, coverage = round2 cov, recency = round2 rec,
          consistency = round2 con, availableCategories = availableCount categories,
          totalCategories = length categoryKeys,
          missingCategories = filter (\<lambda>k. \<not> available (categories k)) categoryKeys \<rparr>)"

subsection \<open>The weighted aggregator\<close>

record FinalScore =
  finalScore :: int
  normalizedWeights :: "(CategoryKey \<times> int) list"

text \<open>The test both loops make: \<^verbatim>\<open>available && score !== null\<close>.\<close>

definition counted :: "CategoryScore \<Rightarrow> bool" where
  "counted c = (available c \<and> score c \<noteq> None)"

text \<open>The first loop: the total weight of the categories that count.\<close>

fun sumWeights :: "(CategoryKey \<Rightarrow> CategoryScore) \<Rightarrow> CategoryKey list \<Rightarrow> rat \<Rightarrow> rat" where
  "sumWeights categories [] totalWeight = totalWeight"
| "sumWeights categories (k # ks) totalWeight =
     sumWeights categories ks
       (if counted (categories k) then totalWeight + categoryWeight k else totalWeight)"

text \<open>The second loop: the percentages and the weighted sum.\<close>

fun reweight ::
  "(CategoryKey \<Rightarrow> CategoryScore) \<Rightarrow> rat \<Rightarrow> CategoryKey list
   \<Rightarrow> (CategoryKey \<times> int) list \<times> rat \<Rightarrow> (CategoryKey \<times> int) list \<times> rat" where
  "reweight categories totalWeight [] acc = acc"
| "reweight categories totalWeight (k # ks) (weights, weightedSum) =
     reweight categories totalWeight ks
       (if counted (categories k)
        then (let normalizedWeight = categoryWeight k / totalWeight
              in (weights @ [(k, round (normalizedWeight * 100))],
                  weightedSum + rat_of_int (toNumber (score (categories k))) * normalizedWeight))
        else (weights @ [(k, 0)], weightedSum))"

definition calculateFinalScore :: "(CategoryKey \<Rightarrow> CategoryScore) \<Rightarrow> FinalScore" where
  "calculateFinalScore categories =
    (let totalWeight = sumWeights categories categoryKeys 0
     in if totalWeight = 0
        then \<lparr> finalScore = 0, normalizedWeights = [] \<rparr>
        else (let (weights, weightedSum) = reweight categories totalWeight categoryKeys ([], 0)
              in \<lparr> finalScore = round weightedSum, normalizedWeights = weights \<rparr>))"

subsection \<open>Recommendations, risks and strengths\<close>

text \<open>Type, priority, message and action of a recommendation.\<close>

datatype Recommendation = Recommendation string "string option" string string

text \<open>Category, severity and issue of a risk factor.\<close>

datatype RiskFactor = RiskFactor string string string

text \<open>Category, score and message of a strength.\<close>

datatype Strength = Strength CategoryKey int string

definition below :: "CategoryScore \<Rightarrow> int \<Rightarrow> bool" where
  "below c n = (available c \<and> toNumber (score c) < n)"

definition generateRecommendations ::
  "int \<Rightarrow> (CategoryKey \<Rightarrow> CategoryScore) \<Rightarrow> Recommendation list" where
  "generateRecommendations final categories =
    [if 80 \<le> final
     then Recommendation ''positive'' (Some ''high'')
            ''Highly trustworthy seller with excellent verification and track record''
            ''Safe to Purchase''
     else if 60 \<le> final
     then Recommendation ''positive'' (Some ''medium'')
            ''Good trust indicators with minor concerns'' ''Consider for Purchase''
     else if 40 \<le> final
     then Recommendation ''warning'' (Some ''high'')
            ''Mixed trust indicators - proceed with caution''
            ''Review Carefully Before Purchase''
     else Recommendation ''negative'' (Some ''critical'')
            ''Low trust score - high risk transaction''
            ''Avoid or Request Additional Verification'']
    @ (if below (categories VerificationIdentity) 50
       then [Recommendation ''warning'' (Some ''high'')
               ''Seller is not verified - identity cannot be confirmed''
               ''Request verification before proceeding'']
       else [])
    @ (if below (categories BehavioralRedFlags) 70
       then [Recommendation ''warning'' (Some ''critical'')
               ''Multiple red flags detected in listings (urgency, suspicious payment requests)''
               ''Exercise extreme caution or avoid'']
       else [])
    @ (if below (categories CommunityFeedback) 40
       then [Recommendation ''warning'' (Some ''medium'')
               ''Limited or poor community feedback'' ''Check reviews carefully'']
       else [])"

definition determineTrustLevel :: "int \<Rightarrow> string" where
  "determineTrustLevel sc =
    (if 80 \<le> sc then ''Excellent'' else if 60 \<le> sc then ''Good''
     else if 40 \<le> sc then ''Fair'' else if 20 \<le> sc then ''Poor'' else ''Very Poor'')"

definition getConfidenceLabel :: "rat \<Rightarrow> string" where
  "getConfidenceLabel c =
    (if 80 / 100 \<le> c then ''Very High'' else if 60 / 100 \<le> c then ''High''
     else if 40 / 100 \<le> c then ''Medium'' else if 20 / 100 \<le> c then ''Low''
     else ''Very Low'')"

definition identifyRiskFactors :: "(CategoryKey \<Rightarrow> CategoryScore) \<Rightarrow> RiskFactor list" where
  "identifyRiskFactors categories =
    (if below (categories VerificationIdentity) 30
     then [RiskFactor ''Verification & Identity'' ''high'' ''Unverified seller identity'']
     else [])
    @ (if below (categories AccountMaturity) 40
       then [RiskFactor ''Account Maturity'' ''medium''
               ''Very new account (less than 3 months)'']
       else [])
    @ (if below (categories BehavioralRedFlags) 70
       then [RiskFactor ''Behavioral Red Flags'' ''critical''
               ''Suspicious language patterns detected'']
       else [])
    @ (if below (categories CommunityFeedback) 40
       then [RiskFactor ''Community Feedback'' ''medium'' ''Poor or insufficient reviews'']
       else [])"

definition getStrengthMessage :: "CategoryKey \<Rightarrow> string" where
  "getStrengthMessage k =
    (case k of
       VerificationIdentity \<Rightarrow> ''Fully verified identity with complete profile''
     | AccountMaturity \<Rightarrow> ''Well-established account with long history''
     | ListingCompleteness \<Rightarrow> ''High-quality, detailed listings''
     | ActivityRecency \<Rightarrow> ''Very active and responsive seller''
     | Engagement \<Rightarrow> ''Excellent response rate to buyers''
     | CommunityFeedback \<Rightarrow> ''Strong positive feedback from buyers''
     | BehavioralRedFlags \<Rightarrow> ''No suspicious behavior detected'')"

definition identifyStrengths :: "(CategoryKey \<Rightarrow> CategoryScore) \<Rightarrow> Strength list" where
  "identifyStrengths categories =
     map (\<lambda>k. Strength k (toNumber (score (categories k))) (getStrengthMessage k))
       (filter (\<lambda>k. available (categories k) \<and> 80 \<le> toNumber (score (categories k)))
          categoryKeys)"

subsection \<open>The engine\<close>

text \<open>
  The object \<^verbatim>\<open>calculatePulseScore\<close> returns: every key of either shape, a key the
  returned object does not have being \<open>None\<close>.
\<close>

record ScoringResult =
  status :: string
  message :: "string option"
  pulseScore :: "int option"
  confidence :: rat
  coverage :: "rat option"
  availableCategories :: "nat option"
  missingCategories :: "CategoryKey list option"
  confidenceLevel :: "string option"
  trustLevel :: "string option"
  categories :: "(CategoryKey \<Rightarrow> CategoryScore) option"
  categoryWeights :: "(CategoryKey \<times> int) list option"
  confidenceMetrics :: "ConfidenceMetrics option"
  recommendations :: "Recommendation list"
  riskFactors :: "RiskFactor list option"
  strengthAreas :: "Strength list option"

text \<open>What the \<^verbatim>\<open>catch\<close> of \<^verbatim>\<open>calculatePulseScore\<close> throws.\<close>

datatype PulseError = FailedToCalculate string

text \<open>The check of the insufficient-data gate on the confidence metrics.\<close>

definition notEnoughData :: "ConfidenceMetrics \<Rightarrow> bool" where
  "notEnoughData m =
     (ConfidenceMetrics.confidence m < 35 / 100 \<or> ConfidenceMetrics.coverage m < 40 / 100)"

text \<open>
  On a seller, listings and feedback of the types above no step of the body throws, so
  the \<^verbatim>\<open>catch\<close> is never entered and the result is always \<open>Inr\<close>.
\<close>

definition calculatePulseScore ::
  "SellerData \<Rightarrow> Listing list \<Rightarrow> VeribleFeedback option \<Rightarrow> PulseError + ScoringResult" where
  "calculatePulseScore sellerData recentListings veribleFeedback =
    (let cats = scoreCategories sellerData recentListings veribleFeedback;
         m = calculateConfidence sellerData recentListings cats
     in if notEnoughData m
        then Inr \<lparr> status = ''insufficient_data'',
                   message = Some ''Not Enough Data'',
                   pulseScore = None,
                   confidence = ConfidenceMetrics.confidence m,
                   coverage = Some (ConfidenceMetrics.coverage m),
                   availableCategories = Some (ConfidenceMetrics.availableCategories m),
                   missingCategories = Some (ConfidenceMetrics.missingCategories m),
                   confidenceLevel = None, trustLevel = None, categories = None,
                   categoryWeights = None, confidenceMetrics = None,
                   recommendations =
                     [Recommendation ''warning'' None
                        ''Insufficient data to generate reliable trust score''
                        ''More seller activity or profile information needed''],
                   riskFactors = None, strengthAreas = None \<rparr>
        else
          (let fs = calculateFinalScore cats
           in Inr \<lparr> status = ''success'',
                      message = None,
                      pulseScore = Some (finalScore fs),
                      confidence = ConfidenceMetrics.confidence m,
                      coverage = None, availableCategories = None, missingCategories = None,
                      confidenceLevel = Some (getConfidenceLabel (ConfidenceMetrics.confidence m)),
                      trustLevel = Some (determineTrustLevel (finalScore fs)),
                      categories = Some cats,
                      categoryWeights = Some (normalizedWeights fs),
                      confidenceMetrics = Some m,
                      recommendations = generateRecommendations (finalScore fs) cats,
                      riskFactors = Some (identifyRiskFactors cats),
                      strengthAreas = Some (identifyStrengths cats) \<rparr>))"

subsection \<open>The scoring rules as the specification words them\<close>




subsection \<open>Sample inputs\<close>

definition emptySeller :: SellerData where
  "emptySeller = \<lparr> marketplaceData = None, profileData = None, dataAvailability = None \<rparr>"

definition plainListing :: Listing where
  "plainListing =
     \<lparr> title = Some (ascii ''Phone''), price = Some (ascii ''100''), hasPrice = Some True,
       imageCount = Some 1, description = Some [], descriptionLength = Some 0 \<rparr>"

definition whatsappListing :: Listing where
  "whatsappListing =
     \<lparr> title = Some (ascii ''Phone''), price = Some (ascii ''100''), hasPrice = Some True,
       imageCount = Some 1,
       description = Some (ascii ''URGENT, CASH ONLY, message me on WhatsApp''),
       descriptionLength = Some 41 \<rparr>"

text \<open>A seller of whom the marketplace shows a rating of 4.8 and no review count.\<close>

definition ratedSeller :: SellerData where
  "ratedSeller =
     \<lparr> marketplaceData = Some \<lparr> verificationStatus = None, accountAge = None, lastSeen = None,
         responseRate = None, totalReviews = Some 0, avgRating = Some (48 / 10) \<rparr>,
       profileData = None, dataAvailability = None \<rparr>"



text \<open>An unverified seller whose bio speaks as a business, last seen 45 days ago.\<close>

definition supplierSeller :: SellerData where
  "supplierSeller =
     \<lparr> marketplaceData = Some \<lparr> verificationStatus = Some (ascii ''unverified''),
         accountAge = None, lastSeen = Some (Days 45), responseRate = None,
         totalReviews = None, avgRating = None \<rparr>,
       profileData = Some \<lparr> profilePicture = None, location = Some (ascii ''Not specified''),
         bio = Some (ascii ''We supply phones'') \<rparr>,
       dataAvailability = None \<rparr>"

section \<open>Properties\<close>

subsection \<open>Ranges of the seven scorers\<close>

lemma floor_fraction: "\<lfloor>(numeral a :: rat) / numeral b\<rfloor> = numeral a div numeral b"
  using floor_divide_of_int_eq [of "numeral a" "numeral b", where ?'a = rat] by simp

lemma floor_unit_fraction: "\<lfloor>(1 :: rat) / numeral b\<rfloor> = 1 div numeral b"
  using floor_divide_of_int_eq [of 1 "numeral b", where ?'a = rat] by simp

lemmas round_simps = round_def floor_fraction floor_unit_fraction

lemma round_min_range:
  assumes "0 \<le> (x::rat)"
  shows "0 \<le> round (min 100 x) \<and> round (min 100 x) \<le> 100"
proof -
  have "round (0::rat) \<le> round (min 100 x)" using assms by (intro round_mono) simp
  moreover have "round (min 100 x) \<le> round (100::rat)" by (intro round_mono) simp
  ultimately show ?thesis by simp
qed

lemma baseVerification_range:
  "0 \<le> fst (baseVerification v) \<and> fst (baseVerification v) \<le> 100"
  by (simp add: baseVerification_def)

lemma bonus_nonneg: "0 \<le> sc \<Longrightarrow> 0 \<le> fst (bonus h a sc)"
  by (simp add: bonus_def)

lemma identity_score:
  "\<exists>s. score (calculateVerificationIdentityScore sd) = Some s \<and> 0 \<le> s \<and> s \<le> 100"
  by (simp add: calculateVerificationIdentityScore_def Let_def case_prod_beta
      bonus_nonneg baseVerification_range)

lemma identity_available: "available (calculateVerificationIdentityScore sd)"
  by (simp add: calculateVerificationIdentityScore_def Let_def case_prod_beta)

lemma identity_counted: "counted (calculateVerificationIdentityScore sd)"
  using identity_score [of sd] identity_available [of sd] by (auto simp: counted_def)

lemma evaluateListing_nonneg: "0 \<le> fst (evaluateListing l)"
  by (simp add: evaluateListing_def Let_def)

lemma evaluateListings_grows: "fst acc \<le> fst (evaluateListings ls acc)"
proof (induction ls arbitrary: acc)
  case Nil
  then show ?case by simp
next
  case (Cons l ls)
  obtain t evs where acc: "acc = (t, evs)" by (cases acc)
  obtain p cs where ev: "evaluateListing l = (p, cs)" by (cases "evaluateListing l")
  have "0 \<le> p" using evaluateListing_nonneg [of l] ev by simp
  moreover have "t + p \<le> fst (evaluateListings ls (t + p, evs @ [Evaluation (title l) p cs]))"
    using Cons.IH [of "(t + p, evs @ [Evaluation (title l) p cs])"] by simp
  ultimately show ?case by (simp add: acc ev)
qed

lemma raiseFlag_le: "0 \<le> pen \<Longrightarrow> fst (raiseFlag m idx name cnt pen st) \<le> fst st"
  by (simp add: raiseFlag_def)

lemma checkListing_le: "fst (checkListing l idx st) \<le> fst st"
  unfolding checkListing_def Let_def
  by (rule order_trans [OF raiseFlag_le], simp)+ simp

lemma scanListings_le: "fst (scanListings ls idx st) \<le> fst st"
proof (induction ls arbitrary: idx st)
  case Nil
  then show ?case by simp
next
  case (Cons l ls)
  have "fst (scanListings ls (idx + 1) (checkListing l idx st)) \<le> fst (checkListing l idx st)"
    by (rule Cons.IH)
  also have "\<dots> \<le> fst st" by (rule checkListing_le)
  finally show ?case by simp
qed

lemma maturity_invariant:
  "(score (calculateAccountMaturityScore sd) = None)
     = (\<not> available (calculateAccountMaturityScore sd))
   \<and> (\<forall>s. score (calculateAccountMaturityScore sd) = Some s \<longrightarrow> 0 \<le> s \<and> s \<le> 100)"
  by (simp add: calculateAccountMaturityScore_def Let_def)

lemma completeness_invariant:
  "(score (calculateListingCompletenessScore ls sd) = None)
     = (\<not> available (calculateListingCompletenessScore ls sd))
   \<and> (\<forall>s. score (calculateListingCompletenessScore ls sd) = Some s \<longrightarrow> 0 \<le> s \<and> s \<le> 100)"
proof (cases "ls = []")
  case True
  then show ?thesis by (simp add: calculateListingCompletenessScore_def)
next
  case False
  obtain t evs where ev: "evaluateListings (take 5 ls) (0, []) = (t, evs)"
    by (cases "evaluateListings (take 5 ls) (0, [])")
  have "0 \<le> t" using evaluateListings_grows [of "(0, [])" "take 5 ls"] ev by simp
  then have "0 \<le> rat_of_int t / rat_of_nat (length (take 5 ls)) / 50 * 100" by simp
  from round_min_range [OF this] show ?thesis using False
    by (simp add: calculateListingCompletenessScore_def Let_def ev)
qed

lemma recency_invariant:
  "(score (calculateActivityRecencyScore sd ls) = None)
     = (\<not> available (calculateActivityRecencyScore sd ls))
   \<and> (\<forall>s. score (calculateActivityRecencyScore sd ls) = Some s \<longrightarrow> 0 \<le> s \<and> s \<le> 100)"
  by (simp add: calculateActivityRecencyScore_def split: option.splits)

lemma engagement_invariant:
  "(score (calculateEngagementScore sd) = None) = (\<not> available (calculateEngagementScore sd))
   \<and> (\<forall>s. score (calculateEngagementScore sd) = Some s \<longrightarrow> 0 \<le> s \<and> s \<le> 100)"
  by (simp add: calculateEngagementScore_def split: option.splits)

lemma feedback_invariant:
  "(score (calculateCommunityFeedbackScore sd fb) = None)
     = (\<not> available (calculateCommunityFeedbackScore sd fb))
   \<and> (\<forall>s. score (calculateCommunityFeedbackScore sd fb) = Some s \<longrightarrow> 0 \<le> s \<and> s \<le> 100)"
  by (simp add: calculateCommunityFeedbackScore_def Let_def split: option.splits prod.splits)

lemma redflags_invariant:
  "(score (calculateBehavioralRedFlagsScore ls sd) = None)
     = (\<not> available (calculateBehavioralRedFlagsScore ls sd))
   \<and> (\<forall>s. score (calculateBehavioralRedFlagsScore ls sd) = Some s \<longrightarrow> 0 \<le> s \<and> s \<le> 100)"
proof (cases "ls = []")
  case True
  then show ?thesis by (simp add: calculateBehavioralRedFlagsScore_def)
next
  case False
  obtain sc fl where sl: "scanListings ls 0 (100, []) = (sc, fl)"
    by (cases "scanListings ls 0 (100, [])")
  have "sc \<le> 100" using scanListings_le [of ls 0 "(100, [])"] sl by simp
  then show ?thesis using False
    by (simp add: calculateBehavioralRedFlagsScore_def Let_def sl)
qed

lemma identity_invariant:
  "(score (calculateVerificationIdentityScore sd) = None)
     = (\<not> available (calculateVerificationIdentityScore sd))
   \<and> (\<forall>s. score (calculateVerificationIdentityScore sd) = Some s \<longrightarrow> 0 \<le> s \<and> s \<le> 100)"
  using identity_score [of sd] identity_available [of sd] by auto

lemma scorers_keep_invariant:
  "(score (scoreCategories sd ls fb k) = None) = (\<not> available (scoreCategories sd ls fb k))
   \<and> (\<forall>s. score (scoreCategories sd ls fb k) = Some s \<longrightarrow> 0 \<le> s \<and> s \<le> 100)"
proof (cases k)
  case VerificationIdentity
  then show ?thesis using identity_invariant [of sd] by (simp add: scoreCategories_def)
next
  case AccountMaturity
  then show ?thesis using maturity_invariant [of sd] by (simp add: scoreCategories_def)
next
  case ListingCompleteness
  then show ?thesis using completeness_invariant [of ls sd] by (simp add: scoreCategories_def)
next
  case ActivityRecency
  then show ?thesis using recency_invariant [of sd ls] by (simp add: scoreCategories_def)
next
  case Engagement
  then show ?thesis using engagement_invariant [of sd] by (simp add: scoreCategories_def)
next
  case CommunityFeedback
  then show ?thesis using feedback_invariant [of sd fb] by (simp add: scoreCategories_def)
next
  case BehavioralRedFlags
  then show ?thesis using redflags_invariant [of ls sd] by (simp add: scoreCategories_def)
qed

lemma category_scores_counted:
  "available (scoreCategories sd ls fb k) \<Longrightarrow> counted (scoreCategories sd ls fb k)"
  using scorers_keep_invariant [of sd ls fb k] by (auto simp: counted_def)

text \<open>
  C3. Whatever the seller, the listings and the feedback, each of the seven category
  scorers (Verification and Identity, Account Maturity, Listing Completeness, Activity
  and Recency, Engagement, Community Feedback, Behavioral Red Flags) returns a score
  that is null exactly when the category is not available, and a score that is not null
  lies between 0 and 100.
\<close>

theorem category_score_invariant:
  "(score (scoreCategories sd ls fb k) = None) = (\<not> available (scoreCategories sd ls fb k))
   \<and> (\<forall>s. score (scoreCategories sd ls fb k) = Some s \<longrightarrow> 0 \<le> s \<and> s \<le> 100)"
  by (rule scorers_keep_invariant)

subsection \<open>The two loops of the aggregator in closed form\<close>

lemma sumWeights_eq:
  "sumWeights C ks acc
     = acc + sum_list (map categoryWeight (filter (\<lambda>k. counted (C k)) ks))"
  by (induction ks arbitrary: acc) simp_all

lemma reweight_eq:
  "reweight C T ks (ws, s)
     = (ws @ map (\<lambda>k. (k, if counted (C k) then round (categoryWeight k / T * 100) else 0)) ks,
        s + sum_list (map (\<lambda>k. rat_of_int (toNumber (score (C k))) * (categoryWeight k / T))
                       (filter (\<lambda>k. counted (C k)) ks)))"
  by (induction ks arbitrary: ws s) (simp_all add: Let_def)

lemma categoryWeight_pos: "0 < categoryWeight k"
  by (cases k) (simp_all add: categoryWeight_def)

lemma weights_sum_nonneg: "0 \<le> sum_list (map categoryWeight ks)"
  by (induction ks) (simp_all add: less_imp_le [OF categoryWeight_pos])



lemma round2_mono: "x \<le> y \<Longrightarrow> round2 x \<le> round2 y"
  unfolding round2_def by (intro divide_right_mono iffD2 [OF of_int_le_iff] round_mono) simp_all

lemma round2_seventh: "round2 (1 / 7) = 14 / 100"
  by (simp add: round2_def round_simps)

lemma available_count_pos: "1 \<le> availableCount (scoreCategories sd ls fb)"
  by (simp add: availableCount_def categoryKeys_def scoreCategories_def identity_available)

lemma total_weight_quarter:
  "25 / 100 \<le> sumWeights (scoreCategories sd ls fb) categoryKeys 0"
proof -
  let ?C = "scoreCategories sd ls fb"
  have c: "counted (?C VerificationIdentity)"
    by (simp add: scoreCategories_def identity_counted)
  have "sumWeights ?C categoryKeys 0
          = 25 / 100 + sum_list (map categoryWeight
              (filter (\<lambda>k. counted (?C k)) (tl categoryKeys)))"
    using c by (simp add: sumWeights_eq categoryKeys_def categoryWeight_def)
  moreover have "0 \<le> sum_list (map categoryWeight
                   (filter (\<lambda>k. counted (?C k)) (tl categoryKeys)))"
    by (rule weights_sum_nonneg)
  ultimately show ?thesis by simp
qed

text \<open>
  C10. The Verification and Identity scorer always returns an available score that is
  not null. So the engine always has at least one available category, its coverage
  ratio is at least 1/7 (the coverage it reports, rounded to two decimals, at least
  0.14), the total weight the aggregator sums is at least 0.25, and the aggregator,
  called by the engine, never takes its branch for a total weight of zero: it returns
  the result of its second loop, with a weight for each of the seven categories.
\<close>

theorem identity_always_available:
  "available (calculateVerificationIdentityScore sd)
   \<and> score (calculateVerificationIdentityScore sd) \<noteq> None
   \<and> 1 \<le> availableCount (scoreCategories sd ls fb)
   \<and> 1 / 7 \<le> rawCoverage (scoreCategories sd ls fb)
   \<and> 14 / 100 \<le> ConfidenceMetrics.coverage
                    (calculateConfidence sd ls (scoreCategories sd ls fb))
   \<and> 25 / 100 \<le> sumWeights (scoreCategories sd ls fb) categoryKeys 0
   \<and> sumWeights (scoreCategories sd ls fb) categoryKeys 0 \<noteq> 0
   \<and> calculateFinalScore (scoreCategories sd ls fb)
       = \<lparr> finalScore = round (snd (reweight (scoreCategories sd ls fb)
                 (sumWeights (scoreCategories sd ls fb) categoryKeys 0) categoryKeys ([], 0))),
           normalizedWeights = fst (reweight (scoreCategories sd ls fb)
                 (sumWeights (scoreCategories sd ls fb) categoryKeys 0) categoryKeys ([], 0)) \<rparr>
   \<and> length (normalizedWeights (calculateFinalScore (scoreCategories sd ls fb))) = 7"
proof -
  let ?C = "scoreCategories sd ls fb"
  let ?T = "sumWeights ?C categoryKeys 0"
  have a: "available (calculateVerificationIdentityScore sd)" by (rule identity_available)
  have b: "score (calculateVerificationIdentityScore sd) \<noteq> None"
    using identity_score [of sd] by auto
  have c: "1 \<le> availableCount ?C" by (rule available_count_pos)
  then have "(1::rat) \<le> rat_of_nat (availableCount ?C)" by simp
  then have d: "1 / 7 \<le> rawCoverage ?C"
    by (simp add: rawCoverage_def categoryKeys_def divide_right_mono)
  have e: "14 / 100 \<le> ConfidenceMetrics.coverage (calculateConfidence sd ls ?C)"
    using round2_mono [OF d] by (simp add: calculateConfidence_def Let_def round2_seventh)
  have f: "25 / 100 \<le> ?T" by (rule total_weight_quarter)
  then have g: "?T \<noteq> 0" by auto
  have h: "calculateFinalScore ?C
       = \<lparr> finalScore = round (snd (reweight ?C ?T categoryKeys ([], 0))),
           normalizedWeights = fst (reweight ?C ?T categoryKeys ([], 0)) \<rparr>"
    using g by (simp add: calculateFinalScore_def Let_def case_prod_beta)
  have i: "length (normalizedWeights (calculateFinalScore ?C)) = 7"
    by (simp add: h reweight_eq categoryKeys_def)
  from a b c d e f g h i show ?thesis by blast
qed

subsection \<open>Searching a text\<close>

lemma startsWith_iff: "startsWith s p = (\<exists>b. s = p @ b)"
  by (induction s p rule: startsWith.induct) auto

lemma jsIncludes_iff: "jsIncludes s p = (\<exists>a b. s = a @ p @ b)"
proof (induction s)
  case Nil
  then show ?case by auto
next
  case (Cons c cs)
  show ?case
  proof
    assume "jsIncludes (c # cs) p"
    then consider "startsWith (c # cs) p" | "jsIncludes cs p" by auto
    then show "\<exists>a b. c # cs = a @ p @ b"
    proof cases
      case 1
      then obtain b where "c # cs = p @ b" by (auto simp: startsWith_iff)
      then have "c # cs = [] @ p @ b" by simp
      then show ?thesis by blast
    next
      case 2
      then obtain a b where "cs = a @ p @ b" using Cons.IH by auto
      then have "c # cs = (c # a) @ p @ b" by simp
      then show ?thesis by blast
    qed
  next
    assume "\<exists>a b. c # cs = a @ p @ b"
    then obtain a b where ab: "c # cs = a @ p @ b" by auto
    show "jsIncludes (c # cs) p"
    proof (cases a)
      case Nil
      then have "startsWith (c # cs) p" using ab by (auto simp: startsWith_iff)
      then show ?thesis by simp
    next
      case (Cons x xs)
      then have "cs = xs @ p @ b" using ab by simp
      then have "jsIncludes cs p" using Cons.IH by blast
      then show ?thesis by simp
    qed
  qed
qed

lemma jsIncludes_trans: "jsIncludes s p \<Longrightarrow> jsIncludes p q \<Longrightarrow> jsIncludes s q"
proof -
  assume "jsIncludes s p" and "jsIncludes p q"
  then obtain a b c d where "s = a @ p @ b" and "p = c @ q @ d"
    by (auto simp: jsIncludes_iff)
  then have "s = (a @ c) @ q @ (d @ b)" by simp
  then show ?thesis unfolding jsIncludes_iff by blast
qed

lemma jsIncludes_lower: "jsIncludes s p \<Longrightarrow> jsIncludes (toLowerCase s) (toLowerCase p)"
proof -
  assume "jsIncludes s p"
  then obtain a b where "s = a @ p @ b" by (auto simp: jsIncludes_iff)
  then have "toLowerCase s = toLowerCase a @ toLowerCase p @ toLowerCase b"
    by (simp add: toLowerCase_def)
  then show ?thesis unfolding jsIncludes_iff by blast
qed

lemma testAny_member: "p \<in> set ps \<Longrightarrow> jsIncludes s (ascii p) \<Longrightarrow> testAny ps s"
  by (auto simp: testAny_def list_ex_iff)

lemma fullText_lower:
  "fullText l = toLowerCase (orEmpty (title l) @ ascii '' '' @ orEmpty (description l))"
  by (simp add: fullText_def toLowerCase_def ascii_def lowerChar_def)

lemma phrase_lower:
  "toLowerCase (ascii ''URGENT, CASH ONLY, message me on WhatsApp'')
     = ascii ''urgent, cash only, message me on whatsapp''"
  by (simp add: toLowerCase_def ascii_def lowerChar_def)

lemma phrase_urgent:
  "jsIncludes (ascii ''urgent, cash only, message me on whatsapp'') (ascii ''urgent'')"
  by (simp add: ascii_def)

lemma phrase_cash:
  "jsIncludes (ascii ''urgent, cash only, message me on whatsapp'') (ascii ''cash only'')"
  by (simp add: ascii_def)

lemma phrase_whatsapp:
  "jsIncludes (ascii ''urgent, cash only, message me on whatsapp'') (ascii ''whatsapp'')"
  by (simp add: ascii_def)

lemma three_flags:
  assumes "urgentLanguage (fullText l)" and "\<not> financialPressure (fullText l)"
    and "cashOnly (fullText l)" and "\<not> firstComeFirstServe (fullText l)"
    and "offPlatformContact (fullText l)" and "\<not> allCapsTitle l"
    and "\<not> 3 < emojiCount (fullText l)"
  shows "calculateBehavioralRedFlagsScore [l] sd =
     \<lparr> score = Some 45, available = True,
       breakdown = RedFlagsBreakdown 100 3
         [\<lparr> listing = 1, flag = ''Urgent language'', count = None, penalty = 15 \<rparr>,
          \<lparr> listing = 1, flag = ''Cash only / suspicious payment'', count = None,
            penalty = 20 \<rparr>,
          \<lparr> listing = 1, flag = ''Off-platform contact attempt'', count = None,
            penalty = 20 \<rparr>] 45 \<rparr>"
  using assms
  by (simp add: calculateBehavioralRedFlagsScore_def checkListing_def raiseFlag_def Let_def)

lemma phrase_flags:
  assumes "jsIncludes (orEmpty (title l) @ ascii '' '' @ orEmpty (description l))
             (ascii ''URGENT, CASH ONLY, message me on WhatsApp'')"
  shows "urgentLanguage (fullText l) \<and> cashOnly (fullText l) \<and> offPlatformContact (fullText l)"
proof -
  have inc: "jsIncludes (fullText l) (ascii ''urgent, cash only, message me on whatsapp'')"
    using jsIncludes_lower [OF assms] by (simp add: fullText_lower phrase_lower)
  have "jsIncludes (fullText l) (ascii ''urgent'')"
    by (rule jsIncludes_trans [OF inc phrase_urgent])
  then have u: "urgentLanguage (fullText l)"
    unfolding urgentLanguage_def by (intro testAny_member [of "''urgent''"]) simp_all
  have "jsIncludes (fullText l) (ascii ''cash only'')"
    by (rule jsIncludes_trans [OF inc phrase_cash])
  then have c: "cashOnly (fullText l)"
    unfolding cashOnly_def by (intro testAny_member [of "''cash only''"]) simp_all
  have "jsIncludes (fullText l) (ascii ''whatsapp'')"
    by (rule jsIncludes_trans [OF inc phrase_whatsapp])
  then have "testAny [''whatsapp'', ''telegram'', ''contact me at''] (fullText l)"
    by (intro testAny_member [of "''whatsapp''"]) simp_all
  then have w: "offPlatformContact (fullText l)" by (simp add: offPlatformContact_def)
  from u c w show ?thesis by blast
qed


lemma whatsapp_text:
  "fullText whatsappListing = ascii ''phone urgent, cash only, message me on whatsapp''"
  by (simp add: fullText_def whatsappListing_def toLowerCase_def ascii_def lowerChar_def
      orEmpty_def)

lemma whatsapp_contains:
  "jsIncludes (orEmpty (title whatsappListing) @ ascii '' ''
                 @ orEmpty (description whatsappListing))
     (ascii ''URGENT, CASH ONLY, message me on WhatsApp'')"
  by (simp add: whatsappListing_def orEmpty_def ascii_def)

lemma whatsapp_no_pressure: "\<not> financialPressure (fullText whatsappListing)"
  by (simp add: whatsapp_text financialPressure_def testAny_def ascii_def)

lemma whatsapp_no_queue: "\<not> firstComeFirstServe (fullText whatsappListing)"
  by (simp add: whatsapp_text firstComeFirstServe_def testAny_def ascii_def)

lemma whatsapp_no_caps: "\<not> allCapsTitle whatsappListing"
  by (simp add: allCapsTitle_def whatsappListing_def orEmpty_def ascii_def toUpperCase_def
      upperChar_def)

lemma whatsapp_no_emoji: "\<not> 3 < emojiCount (fullText whatsappListing)"
  by (simp add: whatsapp_text emojiCount_def isEmoji_def ascii_def)


lemma whatsapp_redflags:
  "calculateBehavioralRedFlagsScore [whatsappListing] emptySeller =
     \<lparr> score = Some 45, available = True,
       breakdown = RedFlagsBreakdown 100 3
         [\<lparr> listing = 1, flag = ''Urgent language'', count = None, penalty = 15 \<rparr>,
          \<lparr> listing = 1, flag = ''Cash only / suspicious payment'', count = None,
            penalty = 20 \<rparr>,
          \<lparr> listing = 1, flag = ''Off-platform contact attempt'', count = None,
            penalty = 20 \<rparr>] 45 \<rparr>"
  using phrase_flags [OF whatsapp_contains] whatsapp_no_pressure whatsapp_no_queue
    whatsapp_no_caps whatsapp_no_emoji
  by (intro three_flags) simp_all

theorem category_score_invariant_witness:
  "score (scoreCategories emptySeller [whatsappListing] None BehavioralRedFlags) = Some 45
   \<and> available (scoreCategories emptySeller [whatsappListing] None BehavioralRedFlags)
   \<and> (0::int) \<le> 45 \<and> (45::int) \<le> 100"
  using category_score_invariant [of emptySeller "[whatsappListing]" None BehavioralRedFlags]
  by (simp add: scoreCategories_def whatsapp_redflags)

subsection \<open>A seller known only by one plain listing\<close>

lemma plain_text: "fullText plainListing = ascii ''phone ''"
  by (simp add: fullText_def plainListing_def toLowerCase_def ascii_def lowerChar_def
      orEmpty_def)

lemma plain_identity:
  "calculateVerificationIdentityScore emptySeller =
     \<lparr> score = Some 0, available = True,
       breakdown = IdentityBreakdown ''Not Verified'' Absent Absent \<rparr>"
  by (simp add: calculateVerificationIdentityScore_def emptySeller_def market_def profile_def
      availability_def truthy_def baseVerification_def bonus_def platformUnavailable_def
      ascii_def)

lemma plain_maturity:
  "calculateAccountMaturityScore emptySeller =
     \<lparr> score = None, available = False,
       breakdown = AgeMissing 0 ''Account age not available'' \<rparr>"
  by (simp add: calculateAccountMaturityScore_def emptySeller_def market_def orZero_def)

lemma plain_completeness:
  "calculateListingCompletenessScore [plainListing] emptySeller =
     \<lparr> score = Some 40, available = True,
       breakdown = CompletenessBreakdown 1 20
         [Evaluation (Some (ascii ''Phone'')) 20 (Checks True True False False)] \<rparr>"
  by (simp add: calculateListingCompletenessScore_def evaluateListing_def plainListing_def
      truthy_def orEmpty_def jsLength_def numAtLeast_def ascii_def round_simps)

lemma plain_recency:
  "calculateActivityRecencyScore emptySeller [plainListing] =
     \<lparr> score = Some 50, available = True,
       breakdown = ListingsBreakdown ''Has active listings'' 1 \<rparr>"
  by (simp add: calculateActivityRecencyScore_def emptySeller_def market_def)

lemma plain_engagement:
  "calculateEngagementScore emptySeller =
     \<lparr> score = None, available = False, breakdown = Message ''Response rate not available'' \<rparr>"
  by (simp add: calculateEngagementScore_def emptySeller_def market_def)

lemma plain_feedback:
  "calculateCommunityFeedbackScore emptySeller None =
     \<lparr> score = None, available = False, breakdown = Message ''No feedback available'' \<rparr>"
  by (simp add: calculateCommunityFeedbackScore_def emptySeller_def market_def orZero_def)

lemma plain_redflags:
  "calculateBehavioralRedFlagsScore [plainListing] emptySeller =
     \<lparr> score = Some 100, available = True, breakdown = RedFlagsBreakdown 100 0 [] 100 \<rparr>"
proof -
  have "\<not> urgentLanguage (fullText plainListing)"
    by (simp add: plain_text urgentLanguage_def testAny_def ascii_def)
  moreover have "\<not> financialPressure (fullText plainListing)"
    by (simp add: plain_text financialPressure_def testAny_def ascii_def)
  moreover have "\<not> cashOnly (fullText plainListing)"
    by (simp add: plain_text cashOnly_def testAny_def ascii_def)
  moreover have "\<not> firstComeFirstServe (fullText plainListing)"
    by (simp add: plain_text firstComeFirstServe_def testAny_def ascii_def)
  moreover have "\<not> offPlatformContact (fullText plainListing)"
    by (simp add: plain_text offPlatformContact_def testAny_def ascii_def)
  moreover have "\<not> allCapsTitle plainListing"
    by (simp add: allCapsTitle_def plainListing_def orEmpty_def ascii_def toUpperCase_def
        upperChar_def)
  moreover have "\<not> 3 < emojiCount (fullText plainListing)"
    by (simp add: plain_text emojiCount_def isEmoji_def ascii_def)
  ultimately show ?thesis
    by (simp add: calculateBehavioralRedFlagsScore_def checkListing_def raiseFlag_def Let_def)
qed

lemmas plain_scores =
  plain_identity plain_maturity plain_completeness plain_recency plain_engagement
  plain_feedback plain_redflags

lemma plain_recency_value: "rawRecency emptySeller [plainListing] = 6 / 10"
  by (simp add: rawRecency_def emptySeller_def market_def)

lemma plain_no_business: "\<not> hasBusinessIndicators emptySeller"
  by (simp add: hasBusinessIndicators_def emptySeller_def profile_def orEmpty_def
      toLowerCase_def ascii_def)

lemma plain_confidence:
  "calculateConfidence emptySeller [plainListing]
       (scoreCategories emptySeller [plainListing] None) =
     \<lparr> ConfidenceMetrics.confidence = 67 / 100, ConfidenceMetrics.coverage = 57 / 100,
       recency = 6 / 10, consistency = 1, ConfidenceMetrics.availableCategories = 4,
       totalCategories = 7,
       ConfidenceMetrics.missingCategories = [AccountMaturity, Engagement, CommunityFeedback] \<rparr>"
  by (simp add: calculateConfidence_def rawCoverage_def plain_recency_value rawConsistency_def
      plain_no_business availableCount_def categoryKeys_def scoreCategories_def plain_scores
      round2_def round_simps)

lemma plain_final:
  "calculateFinalScore (scoreCategories emptySeller [plainListing] None) =
     \<lparr> finalScore = 40,
       normalizedWeights = [(VerificationIdentity, 38), (AccountMaturity, 0),
         (ListingCompleteness, 23), (ActivityRecency, 15), (Engagement, 0),
         (CommunityFeedback, 0), (BehavioralRedFlags, 23)] \<rparr>"
  by (simp add: calculateFinalScore_def categoryKeys_def scoreCategories_def plain_scores
      counted_def categoryWeight_def toNumber_def round_simps)

subsection \<open>The aggregator\<close>





subsection \<open>The reported percentages\<close>

lemma engine_weights:
  "normalizedWeights (calculateFinalScore (scoreCategories sd ls fb))
     = map (\<lambda>k. (k, if counted (scoreCategories sd ls fb k)
                     then round (categoryWeight k
                            / (\<Sum>j\<leftarrow>filter (\<lambda>j. counted (scoreCategories sd ls fb j))
                                       categoryKeys. categoryWeight j) * 100)
                     else 0)) categoryKeys"
proof -
  let ?C = "scoreCategories sd ls fb"
  have "sumWeights ?C categoryKeys 0 \<noteq> 0"
    using total_weight_quarter [of sd ls fb] by auto
  then show ?thesis
    by (simp add: calculateFinalScore_def Let_def case_prod_beta reweight_eq)
       (simp add: sumWeights_eq)
qed

lemma percent_bounds:
  assumes "b VerificationIdentity"
  shows "(\<forall>k. 0 \<le> (if b k then round (categoryWeight k
                 / (\<Sum>j\<leftarrow>filter b categoryKeys. categoryWeight j) * 100) else 0)
            \<and> (if b k then round (categoryWeight k
                 / (\<Sum>j\<leftarrow>filter b categoryKeys. categoryWeight j) * 100) else 0) \<le> 100)
    \<and> 99 \<le> (\<Sum>k\<leftarrow>categoryKeys. if b k then round (categoryWeight k
                 / (\<Sum>j\<leftarrow>filter b categoryKeys. categoryWeight j) * 100) else 0)
    \<and> (\<Sum>k\<leftarrow>categoryKeys. if b k then round (categoryWeight k
                 / (\<Sum>j\<leftarrow>filter b categoryKeys. categoryWeight j) * 100) else 0) \<le> 101"
proof -
  have "\<forall>k. (0::int) \<le> (if b k then round (categoryWeight k
                 / (\<Sum>j\<leftarrow>filter b categoryKeys. categoryWeight j) * 100) else 0)
            \<and> (if b k then round (categoryWeight k
                 / (\<Sum>j\<leftarrow>filter b categoryKeys. categoryWeight j) * 100) else 0) \<le> 100"
  proof
    fix k
    show "(0::int) \<le> (if b k then round (categoryWeight k
                 / (\<Sum>j\<leftarrow>filter b categoryKeys. categoryWeight j) * 100) else 0)
            \<and> (if b k then round (categoryWeight k
                 / (\<Sum>j\<leftarrow>filter b categoryKeys. categoryWeight j) * 100) else 0) \<le> 100"
      using assms
      by (cases k; cases "b AccountMaturity"; cases "b ListingCompleteness";
          cases "b ActivityRecency"; cases "b Engagement"; cases "b CommunityFeedback";
          cases "b BehavioralRedFlags";
          simp add: categoryKeys_def categoryWeight_def round_simps)
  qed
  moreover have "99 \<le> (\<Sum>k\<leftarrow>categoryKeys. if b k then round (categoryWeight k
                 / (\<Sum>j\<leftarrow>filter b categoryKeys. categoryWeight j) * 100) else 0)
    \<and> (\<Sum>k\<leftarrow>categoryKeys. if b k then round (categoryWeight k
                 / (\<Sum>j\<leftarrow>filter b categoryKeys. categoryWeight j) * 100) else 0) \<le> 101"
    using assms
    by (cases "b AccountMaturity"; cases "b ListingCompleteness";
        cases "b ActivityRecency"; cases "b Engagement"; cases "b CommunityFeedback";
        cases "b BehavioralRedFlags";
        simp add: categoryKeys_def categoryWeight_def round_simps)
  ultimately show ?thesis by blast
qed

lemma plain_pulse:
  "\<not> isl (calculatePulseScore emptySeller [plainListing] None)
   \<and> status (projr (calculatePulseScore emptySeller [plainListing] None)) = ''success''
   \<and> pulseScore (projr (calculatePulseScore emptySeller [plainListing] None)) = Some 40
   \<and> categoryWeights (projr (calculatePulseScore emptySeller [plainListing] None))
       = Some [(VerificationIdentity, 38), (AccountMaturity, 0), (ListingCompleteness, 23),
               (ActivityRecency, 15), (Engagement, 0), (CommunityFeedback, 0),
               (BehavioralRedFlags, 23)]"
  by (simp add: calculatePulseScore_def Let_def plain_confidence notEnoughData_def plain_final)

lemma success_weights:
  assumes "calculatePulseScore sd ls fb = Inr r" and "status r = ''success''"
  shows "categoryWeights r
           = Some (normalizedWeights (calculateFinalScore (scoreCategories sd ls fb)))"
  using assms by (auto simp: calculatePulseScore_def Let_def split: if_splits)

text \<open>
  C2, as the specification states it, fails: a seller known only by one plain listing
  is scored (status "success") with the weights 38, 0, 23, 15, 0, 0, 23, which sum
  to 99.
\<close>

theorem category_weights_sum_counterexample:
  "\<not> isl (calculatePulseScore emptySeller [plainListing] None)
   \<and> status (projr (calculatePulseScore emptySeller [plainListing] None)) = ''success''
   \<and> categoryWeights (projr (calculatePulseScore emptySeller [plainListing] None))
       = Some [(VerificationIdentity, 38), (AccountMaturity, 0), (ListingCompleteness, 23),
               (ActivityRecency, 15), (Engagement, 0), (CommunityFeedback, 0),
               (BehavioralRedFlags, 23)]
   \<and> sum_list (map snd [(VerificationIdentity, 38::int), (AccountMaturity, 0),
               (ListingCompleteness, 23), (ActivityRecency, 15), (Engagement, 0),
               (CommunityFeedback, 0), (BehavioralRedFlags, 23)]) = 99
   \<and> sum_list (map snd [(VerificationIdentity, 38::int), (AccountMaturity, 0),
               (ListingCompleteness, 23), (ActivityRecency, 15), (Engagement, 0),
               (CommunityFeedback, 0), (BehavioralRedFlags, 23)]) \<noteq> 100"
  using plain_pulse by simp

text \<open>
  C2, amended. Whenever the engine returns status "success", the returned category
  weights are one integer for each of the seven categories, each between 0 and 100, and
  they sum to 99, 100 or 101; they sum to exactly 100 when all seven categories are
  available.
\<close>

theorem category_weights_sum_near_100:
  assumes "calculatePulseScore sd ls fb = Inr r" and "status r = ''success''"
  shows "\<exists>ws. categoryWeights r = Some ws \<and> map fst ws = categoryKeys
     \<and> (\<forall>w \<in> set (map snd ws). 0 \<le> w \<and> w \<le> 100)
     \<and> 99 \<le> sum_list (map snd ws) \<and> sum_list (map snd ws) \<le> 101
     \<and> ((\<forall>k. available (scoreCategories sd ls fb k)) \<longrightarrow> sum_list (map snd ws) = 100)"
proof -
  let ?C = "scoreCategories sd ls fb"
  let ?b = "\<lambda>k. counted (?C k)"
  let ?ws = "normalizedWeights (calculateFinalScore ?C)"
  define p where "p = (\<lambda>k. if ?b k then round (categoryWeight k
                 / (\<Sum>j\<leftarrow>filter ?b categoryKeys. categoryWeight j) * 100) else 0)"
  have ws: "?ws = map (\<lambda>k. (k, p k)) categoryKeys"
    unfolding p_def by (rule engine_weights)
  have v: "?b VerificationIdentity" by (simp add: scoreCategories_def identity_counted)
  have bounds: "(\<forall>k. 0 \<le> p k \<and> p k \<le> 100)
      \<and> 99 \<le> (\<Sum>k\<leftarrow>categoryKeys. p k) \<and> (\<Sum>k\<leftarrow>categoryKeys. p k) \<le> 101"
    unfolding p_def by (rule percent_bounds [of ?b, OF v])
  have fsts: "map fst ?ws = categoryKeys" by (simp add: ws comp_def)
  have snds: "map snd ?ws = map p categoryKeys" by (simp add: ws comp_def)
  have each: "\<forall>w \<in> set (map snd ?ws). 0 \<le> w \<and> w \<le> 100"
  proof
    fix w
    assume "w \<in> set (map snd ?ws)"
    then obtain k where "w = p k" unfolding snds by auto
    then show "0 \<le> w \<and> w \<le> 100" using bounds by blast
  qed
  have total: "99 \<le> sum_list (map snd ?ws) \<and> sum_list (map snd ?ws) \<le> 101"
    unfolding snds using bounds by blast
  have full: "sum_list (map snd ?ws) = 100" if "\<forall>k. available (?C k)"
  proof -
    have all: "counted (?C k)" for k
      using that category_scores_counted [of sd ls fb k] by simp
    show ?thesis
      unfolding snds p_def by (simp add: all categoryKeys_def categoryWeight_def round_simps)
  qed
  from success_weights [OF assms] fsts each total full show ?thesis by blast
qed

theorem category_weights_sum_near_100_witness:
  "\<not> isl (calculatePulseScore emptySeller [plainListing] None)
   \<and> status (projr (calculatePulseScore emptySeller [plainListing] None)) = ''success''
   \<and> categoryWeights (projr (calculatePulseScore emptySeller [plainListing] None))
       = Some [(VerificationIdentity, 38), (AccountMaturity, 0), (ListingCompleteness, 23),
               (ActivityRecency, 15), (Engagement, 0), (CommunityFeedback, 0),
               (BehavioralRedFlags, 23)]
   \<and> (99::int) \<le> 38 + 0 + 23 + 15 + 0 + 0 + 23
   \<and> (38::int) + 0 + 23 + 15 + 0 + 0 + 23 \<le> 101"
proof -
  let ?X = "calculatePulseScore emptySeller [plainListing] None"
  have r: "?X = Inr (projr ?X)" using plain_pulse by (cases ?X) simp_all
  have s: "status (projr ?X) = ''success''" using plain_pulse by blast
  show ?thesis using category_weights_sum_near_100 [OF r s] plain_pulse by simp
qed

subsection \<open>The gate\<close>

lemma empty_completeness:
  "calculateListingCompletenessScore [] emptySeller =
     \<lparr> score = None, available = False, breakdown = Message ''No listings available'' \<rparr>"
  by (simp add: calculateListingCompletenessScore_def emptySeller_def availability_def
      platformUnavailable_def)

lemma empty_recency:
  "calculateActivityRecencyScore emptySeller [] =
     \<lparr> score = None, available = False, breakdown = Message ''Activity data not available'' \<rparr>"
  by (simp add: calculateActivityRecencyScore_def emptySeller_def market_def availability_def
      platformUnavailable_def)

lemma empty_redflags:
  "calculateBehavioralRedFlagsScore [] emptySeller =
     \<lparr> score = None, available = False, breakdown = Message ''No listings to analyze'' \<rparr>"
  by (simp add: calculateBehavioralRedFlagsScore_def emptySeller_def availability_def
      platformUnavailable_def)

lemma empty_recency_value: "rawRecency emptySeller [] = 3 / 10"
  by (simp add: rawRecency_def emptySeller_def market_def)

lemma empty_confidence:
  "calculateConfidence emptySeller [] (scoreCategories emptySeller [] None) =
     \<lparr> ConfidenceMetrics.confidence = 36 / 100, ConfidenceMetrics.coverage = 14 / 100,
       recency = 3 / 10, consistency = 1, ConfidenceMetrics.availableCategories = 1,
       totalCategories = 7,
       ConfidenceMetrics.missingCategories = [AccountMaturity, ListingCompleteness,
         ActivityRecency, Engagement, CommunityFeedback, BehavioralRedFlags] \<rparr>"
  by (simp add: calculateConfidence_def rawCoverage_def empty_recency_value rawConsistency_def
      plain_no_business availableCount_def categoryKeys_def scoreCategories_def
      plain_identity plain_maturity empty_completeness empty_recency plain_engagement
      plain_feedback empty_redflags round2_def round_simps)

text \<open>
  C1. Whatever the seller, the listings and the feedback, the engine returns a value and
  throws nothing. When the confidence it computed is below 0.35 or the coverage it
  computed is below 0.40, the value has status "insufficient_data" and carries the
  confidence, the coverage, the number of available categories, the list of the missing
  ones and one advisory recommendation; it has no pulse score (and none of the other
  keys of a scored result). Otherwise the value has status "success" and the pulse score
  of the aggregator. The check of the gate itself: confidence 0.34 with coverage 0.50 is
  not enough data, confidence 0.50 with coverage 0.39 is not enough data, confidence
  0.50 with coverage 0.50 is enough.
\<close>

theorem insufficient_data_gate:
  "(let m = calculateConfidence sd ls (scoreCategories sd ls fb)
    in if ConfidenceMetrics.confidence m < 35 / 100 \<or> ConfidenceMetrics.coverage m < 40 / 100
       then calculatePulseScore sd ls fb =
              Inr \<lparr> status = ''insufficient_data'', message = Some ''Not Enough Data'',
                    pulseScore = None, confidence = ConfidenceMetrics.confidence m,
                    coverage = Some (ConfidenceMetrics.coverage m),
                    availableCategories = Some (ConfidenceMetrics.availableCategories m),
                    missingCategories = Some (ConfidenceMetrics.missingCategories m),
                    confidenceLevel = None, trustLevel = None, categories = None,
                    categoryWeights = None, confidenceMetrics = None,
                    recommendations =
                      [Recommendation ''warning'' None
                         ''Insufficient data to generate reliable trust score''
                         ''More seller activity or profile information needed''],
                    riskFactors = None, strengthAreas = None \<rparr>
       else (\<exists>r. calculatePulseScore sd ls fb = Inr r \<and> status r = ''success''
                \<and> pulseScore r
                    = Some (finalScore (calculateFinalScore (scoreCategories sd ls fb)))))
   \<and> notEnoughData (m0 \<lparr> ConfidenceMetrics.confidence := 34 / 100,
                          ConfidenceMetrics.coverage := 50 / 100 \<rparr>)
   \<and> notEnoughData (m0 \<lparr> ConfidenceMetrics.confidence := 50 / 100,
                          ConfidenceMetrics.coverage := 39 / 100 \<rparr>)
   \<and> \<not> notEnoughData (m0 \<lparr> ConfidenceMetrics.confidence := 50 / 100,
                            ConfidenceMetrics.coverage := 50 / 100 \<rparr>)"
  by (simp add: calculatePulseScore_def notEnoughData_def Let_def)

theorem insufficient_data_gate_witness:
  "ConfidenceMetrics.coverage (calculateConfidence emptySeller []
      (scoreCategories emptySeller [] None)) = 14 / 100
   \<and> status (projr (calculatePulseScore emptySeller [] None)) = ''insufficient_data''
   \<and> pulseScore (projr (calculatePulseScore emptySeller [] None)) = None
   \<and> ConfidenceMetrics.confidence (calculateConfidence emptySeller [plainListing]
      (scoreCategories emptySeller [plainListing] None)) = 67 / 100
   \<and> ConfidenceMetrics.coverage (calculateConfidence emptySeller [plainListing]
      (scoreCategories emptySeller [plainListing] None)) = 57 / 100
   \<and> status (projr (calculatePulseScore emptySeller [plainListing] None)) = ''success''
   \<and> pulseScore (projr (calculatePulseScore emptySeller [plainListing] None)) = Some 40"
  using insufficient_data_gate [of emptySeller "[]" None
      "calculateConfidence emptySeller [] (scoreCategories emptySeller [] None)"]
    insufficient_data_gate [of emptySeller "[plainListing]" None
      "calculateConfidence emptySeller [] (scoreCategories emptySeller [] None)"]
  by (auto simp: empty_confidence plain_confidence plain_final Let_def)

subsection \<open>Community Feedback\<close>

text \<open>
  C6. The comment in the scorer reads "If no data at all, mark as N/A", and the base
  tier reads the average rating on its own; the test for "no data" looks at the review
  count and the feedback only. A seller with a rating of 4.8, a review count of 0 and
  no community feedback is therefore returned as unavailable, with a null score, though
  a marketplace review signal (a positive average rating) exists.
\<close>

theorem rating_without_reviews_is_unavailable:
  "0 < orZero (market avgRating ratedSeller)
   \<and> calculateCommunityFeedbackScore ratedSeller None =
       \<lparr> score = None, available = False, breakdown = Message ''No feedback available'' \<rparr>"
  by (simp add: calculateCommunityFeedbackScore_def ratedSeller_def market_def orZero_def)





subsection \<open>Listing Completeness\<close>







subsection \<open>The confidence evaluator\<close>

lemma round2_hundredths: "round2 (rat_of_int k / 100) = rat_of_int k / 100"
  by (simp add: round2_def)

text \<open>
  C9. For every seller and listings, and every seven category scores whose Verification
  and Identity score is a number that is not negative (as the scorer makes it): the
  evaluator computes coverage as the number of available categories over 7; recency as
  1.0 when the days since last seen are at most 30, 0.6 when at most 60, 0.3 otherwise
  (also when they are not a number), and, when last-seen is unknown, 0.6 with at least
  one listing and 0.3 without; consistency as 1.0, or 0.7 when the lowercased bio
  contains "we supply" or "we sell" while the Verification and Identity score is 0;
  and it returns as confidence 0.5 * coverage + 0.3 * recency + 0.2 * consistency
  rounded to two decimals, next to the coverage rounded to two decimals, the recency,
  the consistency, the number of available categories and the total of 7.
\<close>

theorem confidence_formula:
  assumes "score (C VerificationIdentity) = Some v" and "0 \<le> v"
  shows "(let n = length (filter (\<lambda>k. available (C k)) categoryKeys);
              cov = rat_of_nat n / 7;
              rec = (case market lastSeen sd of
                       Some (Days d) \<Rightarrow>
                         (if d \<le> 30 then 1 else if d \<le> 60 then 6 / 10 else 3 / 10)
                     | Some NaN \<Rightarrow> 3 / 10
                     | None \<Rightarrow> (if ls \<noteq> [] then 6 / 10 else 3 / 10));
              con = (if (jsIncludes (toLowerCase (orEmpty (profile bio sd))) (ascii ''we supply'')
                         \<or> jsIncludes (toLowerCase (orEmpty (profile bio sd))) (ascii ''we sell''))
                        \<and> v = 0
                     then 7 / 10 else 1);
              m = calculateConfidence sd ls C
          in rawCoverage C = cov \<and> rawRecency sd ls = rec \<and> rawConsistency sd C = con
             \<and> ConfidenceMetrics.confidence m
                 = round2 ((5 / 10) * cov + (3 / 10) * rec + (2 / 10) * con)
             \<and> ConfidenceMetrics.coverage m = round2 cov
             \<and> recency m = rec \<and> consistency m = con
             \<and> ConfidenceMetrics.availableCategories m = n \<and> totalCategories m = 7)"
proof -
  define rec :: rat where "rec =
    (case market lastSeen sd of
       Some (Days d) \<Rightarrow> (if d \<le> 30 then 1 else if d \<le> 60 then 6 / 10 else 3 / 10)
     | Some NaN \<Rightarrow> 3 / 10
     | None \<Rightarrow> (if ls \<noteq> [] then 6 / 10 else 3 / 10))"
  define con :: rat where "con =
    (if (jsIncludes (toLowerCase (orEmpty (profile bio sd))) (ascii ''we supply'')
         \<or> jsIncludes (toLowerCase (orEmpty (profile bio sd))) (ascii ''we sell''))
        \<and> v = 0
     then 7 / 10 else 1)"
  have cov: "rawCoverage C = rat_of_nat (length (filter (\<lambda>k. available (C k)) categoryKeys)) / 7"
    by (simp add: rawCoverage_def availableCount_def) (simp add: categoryKeys_def)
  have r: "rawRecency sd ls = rec"
    by (simp add: rawRecency_def rec_def daysAtMost_def split: option.splits parsedInt.splits)
  have c: "rawConsistency sd C = con"
    using assms by (auto simp: rawConsistency_def con_def hasBusinessIndicators_def toNumber_def)
  have "rec = rat_of_int 100 / 100 \<or> rec = rat_of_int 60 / 100 \<or> rec = rat_of_int 30 / 100"
    by (simp add: rec_def split: option.splits parsedInt.splits)
  then have r2: "round2 rec = rec"
    by (metis round2_hundredths)
  have "con = rat_of_int 100 / 100 \<or> con = rat_of_int 70 / 100"
    by (simp add: con_def)
  then have c2: "round2 con = con"
    by (metis round2_hundredths)
  have "rawCoverage C = rat_of_nat (length (filter (\<lambda>k. available (C k)) categoryKeys)) / 7
      \<and> rawRecency sd ls = rec \<and> rawConsistency sd C = con
      \<and> ConfidenceMetrics.confidence (calculateConfidence sd ls C)
          = round2 ((5 / 10) * (rat_of_nat (length (filter (\<lambda>k. available (C k))
                categoryKeys)) / 7) + (3 / 10) * rec + (2 / 10) * con)
      \<and> ConfidenceMetrics.coverage (calculateConfidence sd ls C)
          = round2 (rat_of_nat (length (filter (\<lambda>k. available (C k)) categoryKeys)) / 7)
      \<and> recency (calculateConfidence sd ls C) = rec
      \<and> consistency (calculateConfidence sd ls C) = con
      \<and> ConfidenceMetrics.availableCategories (calculateConfidence sd ls C)
          = length (filter (\<lambda>k. available (C k)) categoryKeys)
      \<and> totalCategories (calculateConfidence sd ls C) = 7"
    unfolding calculateConfidence_def Let_def cov r c
    by (simp add: r2 c2 availableCount_def) (simp add: categoryKeys_def)
  then show ?thesis unfolding Let_def rec_def con_def .
qed

lemma supplier_identity:
  "calculateVerificationIdentityScore supplierSeller =
     \<lparr> score = Some 0, available = True,
       breakdown = IdentityBreakdown ''Not Verified'' Absent Absent \<rparr>"
  by (simp add: calculateVerificationIdentityScore_def supplierSeller_def market_def
      profile_def availability_def truthy_def orEmpty_def toLowerCase_def lowerChar_def
      baseVerification_def bonus_def platformUnavailable_def ascii_def)

lemma supplier_available:
  "filter (\<lambda>k. available (scoreCategories supplierSeller [] None k)) categoryKeys
     = [VerificationIdentity, ActivityRecency]"
  by (simp add: categoryKeys_def scoreCategories_def supplier_identity)
     (simp add: calculateAccountMaturityScore_def calculateListingCompletenessScore_def
      calculateActivityRecencyScore_def calculateEngagementScore_def
      calculateCommunityFeedbackScore_def calculateBehavioralRedFlagsScore_def
      supplierSeller_def market_def orZero_def daysAtMost_def)

lemma supplier_bio:
  "jsIncludes (toLowerCase (orEmpty (profile bio supplierSeller))) (ascii ''we supply'')"
  by (simp add: supplierSeller_def profile_def orEmpty_def toLowerCase_def lowerChar_def
      ascii_def)

theorem confidence_formula_witness:
  "score (scoreCategories supplierSeller [] None VerificationIdentity) = Some 0
   \<and> (0::int) \<le> 0
   \<and> rawCoverage (scoreCategories supplierSeller [] None) = 2 / 7
   \<and> rawRecency supplierSeller [] = 6 / 10
   \<and> rawConsistency supplierSeller (scoreCategories supplierSeller [] None) = 7 / 10
   \<and> ConfidenceMetrics.confidence
        (calculateConfidence supplierSeller [] (scoreCategories supplierSeller [] None))
       = round2 ((5 / 10) * (2 / 7) + (3 / 10) * (6 / 10) + (2 / 10) * (7 / 10))
   \<and> ConfidenceMetrics.confidence
        (calculateConfidence supplierSeller [] (scoreCategories supplierSeller [] None))
       = 46 / 100
   \<and> ConfidenceMetrics.coverage
        (calculateConfidence supplierSeller [] (scoreCategories supplierSeller [] None))
       = 29 / 100"
proof -
  let ?C = "scoreCategories supplierSeller [] None"
  have v: "score (?C VerificationIdentity) = Some 0"
    by (simp add: scoreCategories_def supplier_identity)
  have seen: "market lastSeen supplierSeller = Some (Days 45)"
    by (simp add: supplierSeller_def market_def)
  show ?thesis
    using confidence_formula [where C = "?C" and v = 0 and sd = supplierSeller and ls = "[]"] v
    by (simp add: Let_def supplier_available supplier_bio seen round2_def round_simps)
qed

end
